theory Spec2Isabelle
  imports Main
begin

section \<open>Python strings and values\<close>

text \<open>
  A Python \<open>str\<close> is modelled as a HOL \<open>string\<close>: one \<open>char\<close> per character, the
  \<open>char\<close> being the character's code point. The model therefore covers the strings
  whose code points are below 256; \<open>len\<close> is \<open>length\<close>.
\<close>

abbreviation squote :: char where
  "squote \<equiv> CHR 0x27"

abbreviation newline :: char where
  "newline \<equiv> CHR 0x0A"

text \<open>
  \<open>str.isdigit\<close>: true when the string is not empty and every character has the
  Unicode property Numeric_Type Digit or Decimal. Below code point 256 these are the
  ASCII digits 0x30..0x39 and the superscripts U+00B2, U+00B3 and U+00B9.
\<close>

definition isdigit_char :: "char \<Rightarrow> bool" where
  "isdigit_char c =
     (let n = (of_char c :: nat) in (48 \<le> n \<and> n \<le> 57) \<or> n = 178 \<or> n = 179 \<or> n = 185)"

definition isdigit :: "string \<Rightarrow> bool" where
  "isdigit s = (s \<noteq> [] \<and> list_all isdigit_char s)"

text \<open>The ASCII decimal digits, which is what the specification asks of an EAN.\<close>

definition ascii_digit :: "char \<Rightarrow> bool" where
  "ascii_digit c = (let n = (of_char c :: nat) in 48 \<le> n \<and> n \<le> 57)"

text \<open>
  The errors the program raises. The validation failures and the failure of \<open>str\<close> on
  a long integer are Python \<open>ValueError\<close>s (the specification's \<open>ValidationError\<close>);
  \<open>OSError\<close> stands for the failures of the file operations.
\<close>

datatype py_error = ValueError string | OSError

text \<open>The decimal digits of a natural number, and the decimal text of an integer.\<close>

definition digit_char :: "nat \<Rightarrow> char" where
  "digit_char d = char_of (48 + d)"

fun str_nat :: "nat \<Rightarrow> string" where
  "str_nat n = (if n < 10 then [digit_char n] else str_nat (n div 10) @ [digit_char (n mod 10)])"

declare str_nat.simps [simp del]

definition dec_int :: "int \<Rightarrow> string" where
  "dec_int i = (if i < 0 then CHR ''-'' # str_nat (nat (- i)) else str_nat (nat i))"

text \<open>
  \<open>str(i)\<close> for an integer \<open>i\<close>: CPython raises \<open>ValueError\<close> when \<open>i\<close> has more
  decimal digits (the sign not counted) than the limit \<open>int_max_str_digits\<close>, 4300 by
  default, and returns the decimal text otherwise.
\<close>

definition int_max_str_digits :: nat where
  "int_max_str_digits = 4300"

definition str_int :: "int \<Rightarrow> py_error + string" where
  "str_int i =
     (if int_max_str_digits < length (str_nat (nat (abs i)))
      then Inl (ValueError (''Exceeds the limit (4300 digits) for integer string conversion; ''
                            @ ''use sys.set_int_max_str_digits() to increase the limit''))
      else Inr (dec_int i))"

text \<open>
  \<open>s.replace(old, new)\<close> for a one-character \<open>old\<close>: every occurrence of the
  character is replaced, left to right.
\<close>

definition replace_char :: "char \<Rightarrow> string \<Rightarrow> string \<Rightarrow> string" where
  "replace_char old new s = concat (map (\<lambda>c. if c = old then new else [c]) s)"

text \<open>\<open>sep.join(xs)\<close>.\<close>

fun join :: "string \<Rightarrow> string list \<Rightarrow> string" where
  "join sep [] = []"
| "join sep [x] = x"
| "join sep (x # y # ys) = x @ sep @ join sep (y # ys)"

text \<open>
  The elements of \<open>_segment\<close>: a string or \<open>None\<close>. Every call of \<open>_segment\<close> in
  the builder passes strings (an integer is converted with \<open>str\<close> by the caller, before
  the call), and the specification's encoder takes strings and empty placeholders;
  \<open>None\<close> is the other value that the code tests for. \<open>str(e)\<close> of a string is the
  string itself.
\<close>

datatype element = PyStr string | PyNone

fun py_str :: "element \<Rightarrow> string" where
  "py_str (PyStr s) = s"
| "py_str PyNone = ''None''"

section \<open>The segment encoder\<close>

text \<open>
  The chain \<open>str(e).replace("?", "??").replace("'", "?'").replace(":", "?:")\<close> of
  \<open>_segment\<close>, the same in release1 and release2.
\<close>

definition escape :: "string \<Rightarrow> string" where
  "escape s =
     replace_char CHR '':'' ''?:''
       (replace_char squote [CHR ''?'', squote]
          (replace_char CHR ''?'' ''??'' s))"

text \<open>
  release2: \<open>_segment\<close> keeps the elements with \<open>e != "" and e is not None\<close>,
  escapes them, joins them with \<open>+\<close> and closes the segment with the terminator.
\<close>

definition kept :: "element \<Rightarrow> bool" where
  "kept e = (e \<noteq> PyStr [] \<and> e \<noteq> PyNone)"

definition segment :: "string \<Rightarrow> element list \<Rightarrow> string" where
  "segment tag elements =
     tag @ ''+'' @ join ''+'' (map (\<lambda>e. escape (py_str e)) (filter kept elements)) @ [squote]"

text \<open>release1: \<open>_segment\<close> escapes and joins every element.\<close>

definition segment_r1 :: "string \<Rightarrow> element list \<Rightarrow> string" where
  "segment_r1 tag elements =
     tag @ ''+'' @ join ''+'' (map (\<lambda>e. escape (py_str e)) elements) @ [squote]"

text \<open>
  The reference inverse of the specification's round-trip property: \<open>??\<close> becomes
  \<open>?\<close>, \<open>?'\<close> becomes \<open>'\<close>, \<open>?+\<close> becomes \<open>+\<close> and \<open>?:\<close> becomes \<open>:\<close>, read
  left to right; any other character stands for itself.
\<close>

definition special :: "char \<Rightarrow> bool" where
  "special c = (c = CHR ''?'' \<or> c = squote \<or> c = CHR ''+'' \<or> c = CHR '':'')"

fun unescape :: "string \<Rightarrow> string" where
  "unescape [] = []"
| "unescape [c] = [c]"
| "unescape (c # d # cs) =
     (if c = CHR ''?'' \<and> special d then d # unescape cs else c # unescape (d # cs))"

section \<open>The message builder (release2)\<close>

text \<open>The fields of a \<open>RecadvGenerator\<close> instance.\<close>

record generator =
  message :: "string list"
  message_ref :: string
  carrier :: string
  delivery_location :: string
  buyer_ean :: string
  supplier_ean :: string
  reference_number :: string
  document_number :: string
  output_dir :: string
  verbose :: bool

text \<open>
  What one \<open>generate\<close> call reads from outside the program: the clock, formatted by
  \<open>strftime("%Y%m%d%H%M")\<close>, when the message reference is made and again when the
  DTM segment is made, and \<open>uuid.uuid4().hex\<close>.
\<close>

record env =
  ref_clock :: string
  uuid_hex :: string
  dtm_clock :: string

text \<open>\<open>_validate_ean\<close>.\<close>

definition validate_ean :: "string \<Rightarrow> py_error + string" where
  "validate_ean ean =
     (if \<not> (isdigit ean \<and> length ean = 13)
      then Inl (ValueError (''Invalid EAN: '' @ ean @ ''. Must be 13 digits.''))
      else Inr ean)"

text \<open>
  \<open>__init__\<close>: both EANs are validated, buyer first; the message starts empty and the
  reference as the empty string; the last statement is
  \<open>os.makedirs(self.output_dir, exist_ok=True)\<close>, which raises \<open>OSError\<close> when the
  directory cannot be made (for the empty path, for instance). Whether it can is a
  matter of the file system: \<open>makedirs_succeeds\<close> tells it for each path.
\<close>

definition init ::
  "(string \<Rightarrow> bool) \<Rightarrow> string \<Rightarrow> string \<Rightarrow> string \<Rightarrow> string \<Rightarrow> string \<Rightarrow> string
     \<Rightarrow> string \<Rightarrow> bool \<Rightarrow> py_error + generator" where
  "init makedirs_succeeds carrier0 delivery_location0 buyer_ean0 supplier_ean0 reference_number0
       output_dir0 document_number0 verbose0 =
     (case validate_ean buyer_ean0 of
        Inl e \<Rightarrow> Inl e
      | Inr b \<Rightarrow>
          (case validate_ean supplier_ean0 of
             Inl e \<Rightarrow> Inl e
           | Inr s \<Rightarrow>
               if makedirs_succeeds output_dir0
               then Inr \<lparr> message = [], message_ref = [], carrier = carrier0,
                          delivery_location = delivery_location0, buyer_ean = b,
                          supplier_ean = s, reference_number = reference_number0,
                          document_number = document_number0, output_dir = output_dir0,
                          verbose = verbose0 \<rparr>
               else Inl OSError))"

text \<open>\<open>_generate_message_reference\<close>: the timestamp followed by \<open>hex[:8]\<close>.\<close>

definition generate_message_reference :: "env \<Rightarrow> string" where
  "generate_message_reference e = ref_clock e @ take 8 (uuid_hex e)"

text \<open>\<open>self.message.append(s)\<close>.\<close>

definition emit :: "string \<Rightarrow> generator \<Rightarrow> generator" where
  "emit s g = g\<lparr>message := message g @ [s]\<rparr>"

definition add_una_segment :: "generator \<Rightarrow> generator" where
  "add_una_segment g = emit (''UNA:+.? '' @ [squote]) g"

definition add_header :: "string \<Rightarrow> generator \<Rightarrow> generator" where
  "add_header now g =
     emit (segment ''RFF'' [PyStr (''DQ:'' @ reference_number g)])
       (emit (segment ''DTM'' [PyStr (''137:'' @ now @ '':203'')])
          (emit (segment ''BGM'' [PyStr ''351'', PyStr (document_number g), PyStr ''9''])
             (emit (segment ''UNH'' [PyStr (message_ref g), PyStr ''RECADV:D:96A:UN:EAN008''])
                g)))"

text \<open>
  The operations that can raise return the error or the result, together with the
  builder as the call leaves it.
\<close>

definition add_party :: "string \<Rightarrow> string \<Rightarrow> generator \<Rightarrow> (py_error + unit) \<times> generator" where
  "add_party qualifier ean g =
     (case validate_ean ean of
        Inl e \<Rightarrow> (Inl e, g)
      | Inr v \<Rightarrow> (Inr (), emit (segment ''NAD'' [PyStr qualifier, PyStr (ean @ ''::9'')]) g))"

definition add_default_parties :: "generator \<Rightarrow> (py_error + unit) \<times> generator" where
  "add_default_parties g =
     (case add_party ''BY'' (buyer_ean g) g of
        (Inl e, g1) \<Rightarrow> (Inl e, g1)
      | (Inr u, g1) \<Rightarrow> add_party ''SU'' (supplier_ean g1) g1)"

definition add_transport_details :: "generator \<Rightarrow> generator" where
  "add_transport_details g =
     emit (segment ''LOC'' [PyStr ''9'', PyStr (delivery_location g)])
       (emit (segment ''TDT'' [PyStr ''20'', PyStr [], PyStr [], PyStr ''31'', PyStr [],
                               PyStr (carrier g)])
          g)"

text \<open>
  A quantity is a string or an integer (\<open>Union[str, int]\<close>); \<open>str(qty)\<close> is the
  string itself, or the conversion of the integer, which can raise.
\<close>

datatype quantity = QStr string | QInt int

fun str_qty :: "quantity \<Rightarrow> py_error + string" where
  "str_qty (QStr s) = Inr s"
| "str_qty (QInt i) = str_int i"

text \<open>
  \<open>add_line_item\<close>: the EAN is validated, then \<open>str(qty)\<close> is taken and tested with
  \<open>isdigit\<close>; the LIN and QTY segments are appended; then \<open>str(cartons)\<close> is taken
  for the PAC segment, so if that conversion raises, LIN and QTY are already in the
  message; PAC and MEA are appended last.
\<close>

definition add_line_item ::
  "string \<Rightarrow> string \<Rightarrow> quantity \<Rightarrow> int \<Rightarrow> string \<Rightarrow> generator
     \<Rightarrow> (py_error + unit) \<times> generator" where
  "add_line_item line_no0 ean0 qty0 cartons0 weight0 g =
     (case validate_ean ean0 of
        Inl e \<Rightarrow> (Inl e, g)
      | Inr v \<Rightarrow>
          (case str_qty qty0 of
             Inl e \<Rightarrow> (Inl e, g)
           | Inr qty_str \<Rightarrow>
               if \<not> isdigit qty_str
               then (Inl (ValueError (''Quantity must be numeric, got: '' @ qty_str)), g)
               else
                 (let g1 = emit (segment ''LIN'' [PyStr line_no0, PyStr [],
                                                  PyStr (''EN:'' @ ean0)]) g;
                      g2 = emit (segment ''QTY'' [PyStr (''113:'' @ qty_str)]) g1
                  in case str_int cartons0 of
                       Inl e \<Rightarrow> (Inl e, g2)
                     | Inr cartons_str \<Rightarrow>
                         (Inr (),
                          emit (segment ''MEA'' [PyStr ''AAE'', PyStr ''G'', PyStr weight0])
                            (emit (segment ''PAC'' [PyStr cartons_str, PyStr ''CT'']) g2)))))"

text \<open>
  \<open>add_trailer\<close>: \<open>segment_count\<close> is one more than the length of a list, a number
  of at most twenty digits on any machine, so \<open>str(segment_count)\<close> is its decimal text.
\<close>

definition add_trailer :: "generator \<Rightarrow> generator" where
  "add_trailer g =
     (let segment_count = length (message g) + 1
      in emit (segment ''UNT'' [PyStr (str_nat segment_count), PyStr (message_ref g)]) g)"

text \<open>
  A line item is a dictionary with the keys \<open>line_no\<close>, \<open>ean\<close> and \<open>qty\<close> and the
  optional keys \<open>cartons\<close> and \<open>weight\<close>, read with \<open>item.get(key, default)\<close>.
\<close>

record line_item =
  line_no :: string
  ean :: string
  qty :: quantity
  cartons :: "int option"
  weight :: "string option"

text \<open>\<open>item.get("cartons", 1)\<close> and \<open>item.get("weight", "KGM:6.5")\<close>.\<close>

definition cartons_of :: "line_item \<Rightarrow> int" where
  "cartons_of it = (case cartons it of None \<Rightarrow> 1 | Some c \<Rightarrow> c)"

definition weight_of :: "line_item \<Rightarrow> string" where
  "weight_of it = (case weight it of None \<Rightarrow> ''KGM:6.5'' | Some w \<Rightarrow> w)"

text \<open>The loop \<open>for item in line_items\<close> of \<open>generate\<close>; it stops at the first error.\<close>

fun add_line_items :: "line_item list \<Rightarrow> generator \<Rightarrow> (py_error + unit) \<times> generator" where
  "add_line_items [] g = (Inr (), g)"
| "add_line_items (item # items) g =
     (case add_line_item (line_no item) (ean item) (qty item) (cartons_of item)
             (weight_of item) g of
        (Inl e, g1) \<Rightarrow> (Inl e, g1)
      | (Inr u, g1) \<Rightarrow> add_line_items items g1)"

text \<open>
  \<open>generate\<close> returns the list of segments when \<open>as_list\<close> is set and the segments
  joined by newlines otherwise. (The printing under \<open>verbose\<close> changes nothing.)
\<close>

datatype rendered = Segments "string list" | Text string

definition generate ::
  "env \<Rightarrow> line_item list \<Rightarrow> bool \<Rightarrow> generator \<Rightarrow> (py_error + rendered) \<times> generator" where
  "generate e line_items as_list g =
     (if line_items = [] then (Inl (ValueError ''At least one line item is required.''), g)
      else
        (let g1 = g\<lparr>message := []\<rparr>;
             g2 = g1\<lparr>message_ref := generate_message_reference e\<rparr>;
             g3 = add_una_segment g2;
             g4 = add_header (dtm_clock e) g3
         in case add_default_parties g4 of
              (Inl err, g5) \<Rightarrow> (Inl err, g5)
            | (Inr u, g5) \<Rightarrow>
                (let g6 = add_transport_details g5
                 in case add_line_items line_items g6 of
                      (Inl err, g7) \<Rightarrow> (Inl err, g7)
                    | (Inr u, g7) \<Rightarrow>
                        (let g8 = add_trailer g7
                         in (Inr (if as_list then Segments (message g8)
                                  else Text (join [newline] (message g8))),
                             g8)))))"

section \<open>The durable writer of \<open>generate_and_save\<close> (release2)\<close>

text \<open>
  The files of the system: a path has a content or does not exist. What the file
  operations of one call do is read from \<open>io\<close>: the path of the temporary file that
  \<open>NamedTemporaryFile\<close> creates, the operation that raises (if any), and what has
  reached the temporary file when writing or closing it raises.
\<close>

type_synonym files = "string \<Rightarrow> string option"

datatype io_step = CreateTemp | WriteTemp | CloseTemp | MoveTemp

record io =
  temp_name :: string
  fault :: "io_step option"
  written :: string

text \<open>\<open>os.path.join\<close> of two parts (POSIX).\<close>

definition path_join :: "string \<Rightarrow> string \<Rightarrow> string" where
  "path_join a b =
     (if take 1 b = ''/'' then b
      else if a = [] \<or> last a = CHR ''/'' then a @ b
      else a @ ''/'' @ b)"

text \<open>
  The \<open>with\<close> block: the temporary file is created, \<open>tmp.write(edi_content)\<close> runs,
  then \<open>tmp_file = tmp.name\<close>, and leaving the block closes the file. The result is the
  outcome, the value of the variable \<open>tmp_file\<close> at that point, and the files.
\<close>

definition write_temp :: "io \<Rightarrow> string \<Rightarrow> files \<Rightarrow> (py_error + unit) \<times> string option \<times> files" where
  "write_temp x content fs =
     (if fault x = Some CreateTemp then (Inl OSError, None, fs)
      else if fault x = Some WriteTemp then (Inl OSError, None, fs(temp_name x \<mapsto> written x))
      else if fault x = Some CloseTemp
        then (Inl OSError, Some (temp_name x), fs(temp_name x \<mapsto> written x))
      else (Inr (), Some (temp_name x), fs(temp_name x \<mapsto> content)))"

text \<open>\<open>shutil.move(src, dst)\<close> of a file onto a file path of the same file system.\<close>

definition move :: "io \<Rightarrow> string \<Rightarrow> string \<Rightarrow> files \<Rightarrow> (py_error + unit) \<times> files" where
  "move x src dst fs =
     (if fault x = Some MoveTemp then (Inl OSError, fs)
      else if src = dst then (Inr (), fs)
      else (Inr (), (fs(dst := fs src))(src := None)))"

text \<open>The body of the \<open>try\<close> statement.\<close>

definition try_body ::
  "io \<Rightarrow> string \<Rightarrow> string \<Rightarrow> files \<Rightarrow> (py_error + unit) \<times> string option \<times> files" where
  "try_body x content filepath fs =
     (case write_temp x content fs of
        (Inl err, tmp_file, fs1) \<Rightarrow> (Inl err, tmp_file, fs1)
      | (Inr u, tmp_file, fs1) \<Rightarrow>
          (case move x (temp_name x) filepath fs1 of (r, fs2) \<Rightarrow> (r, tmp_file, fs2)))"

text \<open>The \<open>finally\<close> clause: \<open>if tmp_file and os.path.exists(tmp_file): os.remove(tmp_file)\<close>.\<close>

definition cleanup :: "string option \<Rightarrow> files \<Rightarrow> files" where
  "cleanup tmp_file fs =
     (case tmp_file of
        None \<Rightarrow> fs
      | Some t \<Rightarrow> if t \<noteq> [] \<and> fs t \<noteq> None then fs(t := None) else fs)"

text \<open>The whole \<open>try\<close> ... \<open>finally\<close> statement: the outcome and the files it leaves.\<close>

definition write_via_temp :: "io \<Rightarrow> string \<Rightarrow> string \<Rightarrow> files \<Rightarrow> (py_error + unit) \<times> files" where
  "write_via_temp x content filepath fs =
     (case try_body x content filepath fs of
        (r, tmp_file, fs1) \<Rightarrow> (r, cleanup tmp_file fs1))"

fun text_of :: "rendered \<Rightarrow> string" where
  "text_of (Text s) = s"
| "text_of (Segments m) = join [newline] m"

text \<open>
  \<open>generate_and_save\<close>: the message is generated as text, the file name defaults to
  \<open>RECADV_<message_ref>.edi\<close> when none (or an empty one) is given, the text is written
  through the temporary file, and the path is returned.
\<close>

definition generate_and_save ::
  "env \<Rightarrow> io \<Rightarrow> line_item list \<Rightarrow> string option \<Rightarrow> generator \<Rightarrow> files
     \<Rightarrow> (py_error + string) \<times> generator \<times> files" where
  "generate_and_save e x line_items filename g fs =
     (case generate e line_items False g of
        (Inl err, g1) \<Rightarrow> (Inl err, g1, fs)
      | (Inr r, g1) \<Rightarrow>
          (let edi_content = text_of r;
               default_name = ''RECADV_'' @ message_ref g1 @ ''.edi'';
               fname = (case filename of
                          None \<Rightarrow> default_name
                        | Some f \<Rightarrow> if f = [] then default_name else f);
               filepath = path_join (output_dir g1) fname
           in case write_via_temp x edi_content filepath fs of
                (Inl err, fs1) \<Rightarrow> (Inl err, g1, fs1)
              | (Inr u, fs1) \<Rightarrow> (Inr filepath, g1, fs1)))"

section \<open>Notions used to state the properties\<close>

text \<open>
  An EAN that \<open>_validate_ean\<close> accepts, and a line item that \<open>add_line_item\<close>
  accepts: the EAN passes, \<open>str(qty)\<close> returns a text that passes \<open>isdigit\<close>, and
  \<open>str(cartons)\<close> returns (of the default carton count when the item has none).
\<close>

definition ean_ok :: "string \<Rightarrow> bool" where
  "ean_ok s = (isdigit s \<and> length s = 13)"

definition valid_item :: "line_item \<Rightarrow> bool" where
  "valid_item it =
     (ean_ok (ean it) \<and>
      (case str_qty (qty it) of Inl e \<Rightarrow> False | Inr s \<Rightarrow> isdigit s) \<and>
      (case str_int (cartons_of it) of Inl e \<Rightarrow> False | Inr s \<Rightarrow> True))"

text \<open>The text of a quantity when \<open>str(qty)\<close> returns.\<close>

fun qty_text :: "quantity \<Rightarrow> string" where
  "qty_text (QStr s) = s"
| "qty_text (QInt i) = dec_int i"

text \<open>What the specification asks of an EAN: exactly 13 ASCII decimal digits.\<close>

definition ascii_ean :: "string \<Rightarrow> bool" where
  "ascii_ean s = (list_all ascii_digit s \<and> length s = 13)"

text \<open>
  Reading the count back from a trailer segment: the decimal number that follows
  \<open>UNT+\<close>.
\<close>

definition digit_val :: "char \<Rightarrow> nat" where
  "digit_val c = of_char c - 48"

definition parse_nat :: "string \<Rightarrow> nat option" where
  "parse_nat ds =
     (if ds \<noteq> [] \<and> list_all ascii_digit ds
      then Some (foldl (\<lambda>a c. 10 * a + digit_val c) 0 ds) else None)"

definition trailer_count :: "string \<Rightarrow> nat option" where
  "trailer_count seg =
     (if take 4 seg = ''UNT+'' then parse_nat (takeWhile ascii_digit (drop 4 seg)) else None)"

text \<open>The tag of a rendered segment: its first three characters.\<close>

definition tag_of :: "string \<Rightarrow> string" where
  "tag_of seg = take 3 seg"


text \<open>
  The segments that \<open>generate\<close> appends before the line items, and those that
  \<open>add_line_item\<close> appends for one item.
\<close>

definition head_segments :: "string \<Rightarrow> string \<Rightarrow> generator \<Rightarrow> string list" where
  "head_segments ref now g =
     [''UNA:+.? '' @ [squote],
      segment ''UNH'' [PyStr ref, PyStr ''RECADV:D:96A:UN:EAN008''],
      segment ''BGM'' [PyStr ''351'', PyStr (document_number g), PyStr ''9''],
      segment ''DTM'' [PyStr (''137:'' @ now @ '':203'')],
      segment ''RFF'' [PyStr (''DQ:'' @ reference_number g)],
      segment ''NAD'' [PyStr ''BY'', PyStr (buyer_ean g @ ''::9'')],
      segment ''NAD'' [PyStr ''SU'', PyStr (supplier_ean g @ ''::9'')],
      segment ''TDT'' [PyStr ''20'', PyStr [], PyStr [], PyStr ''31'', PyStr [], PyStr (carrier g)],
      segment ''LOC'' [PyStr ''9'', PyStr (delivery_location g)]]"

definition item_segments :: "line_item \<Rightarrow> string list" where
  "item_segments it =
     [segment ''LIN'' [PyStr (line_no it), PyStr [], PyStr (''EN:'' @ ean it)],
      segment ''QTY'' [PyStr (''113:'' @ qty_text (qty it))],
      segment ''PAC'' [PyStr (dec_int (cartons_of it)), PyStr ''CT''],
      segment ''MEA'' [PyStr ''AAE'', PyStr ''G'', PyStr (weight_of it)]]"

text \<open>
  The example of the specification: the default carrier and delivery location, buyer
  EAN 5412345000176, supplier EAN 4012345500004, reference 123456789, document number
  RECADV001 and one line item; a clock reading and a (version 4) UUID for the call.
\<close>

definition example_generator :: generator where
  "example_generator =
     \<lparr> message = [], message_ref = [], carrier = ''CarrierX'', delivery_location = ''DEHAM'',
       buyer_ean = ''5412345000176'', supplier_ean = ''4012345500004'',
       reference_number = ''123456789'', document_number = ''RECADV001'',
       output_dir = ''output'', verbose = False \<rparr>"

definition example_env :: env where
  "example_env =
     \<lparr> ref_clock = ''202501011200'', uuid_hex = ''0123456789ab4cde8f0123456789abcd'',
       dtm_clock = ''202501011200'' \<rparr>"

definition example_item :: line_item where
  "example_item =
     \<lparr> line_no = ''1'', ean = ''4000862141404'', qty = QStr ''12'', cartons = None,
       weight = None \<rparr>"



text \<open>
  Reading the element positions back from a rendered segment: the text between the
  separator after the tag and the terminator is cut at every \<open>+\<close> that no release
  character precedes; a \<open>?\<close> releases the character after it.
\<close>

definition push :: "string \<Rightarrow> string list \<Rightarrow> string list" where
  "push s ps = (case ps of [] \<Rightarrow> [s] | p # ps' \<Rightarrow> (s @ p) # ps')"

fun split_plus :: "string \<Rightarrow> string list" where
  "split_plus [] = [[]]"
| "split_plus (c # cs) =
     (if c = CHR ''?'' then
        (case cs of [] \<Rightarrow> [[c]] | d # ds \<Rightarrow> push [c, d] (split_plus ds))
      else if c = CHR ''+'' then [] # split_plus cs
      else push [c] (split_plus cs))"

definition elements_of :: "string \<Rightarrow> string \<Rightarrow> string list" where
  "elements_of tag seg = split_plus (butlast (drop (length tag + 1) seg))"

text \<open>
  An EAN of thirteen superscript twos (U+00B2), and a run of the file operations in
  which \<open>tmp.write\<close> raises, on a file system with no files.
\<close>

definition superscript_ean :: string where
  "superscript_ean = replicate 13 (CHR 0xB2)"

definition example_files :: files where
  "example_files = (\<lambda>p. None)"

definition example_io_write_fails :: io where
  "example_io_write_fails =
     \<lparr> temp_name = ''output/tmpk3v9x2ab'', fault = Some WriteTemp, written = [] \<rparr>"

text \<open>
  Whether a character occurs in an escaped text without a release character before it;
  a \<open>?\<close> releases the character after it.
\<close>

fun unescaped_occurs :: "char \<Rightarrow> string \<Rightarrow> bool" where
  "unescaped_occurs c [] = False"
| "unescaped_occurs c (x # xs) =
     (if x = CHR ''?'' then (case xs of [] \<Rightarrow> False | y # ys \<Rightarrow> unescaped_occurs c ys)
      else x = c \<or> unescaped_occurs c xs)"

text \<open>What the three replacements of \<open>escape\<close> do to one character (used in the proofs).\<close>

definition escape_char :: "char \<Rightarrow> string" where
  "escape_char c =
     (if c = CHR ''?'' then ''??''
      else if c = squote then [CHR ''?'', squote]
      else if c = CHR '':'' then ''?:''
      else [c])"

section \<open>Properties of the encoder\<close>

lemma replace_char_Nil: "replace_char old new [] = []"
  by (simp add: replace_char_def)

lemma replace_char_Cons:
  "replace_char old new (c # s) = (if c = old then new else [c]) @ replace_char old new s"
  by (simp add: replace_char_def)

lemma replace_char_append:
  "replace_char old new (s @ t) = replace_char old new s @ replace_char old new t"
  by (simp add: replace_char_def)

lemma escape_Nil: "escape [] = []"
  by (simp add: escape_def replace_char_Nil)

lemma escape_Cons: "escape (c # s) = escape_char c @ escape s"
  by (simp add: escape_def escape_char_def replace_char_Cons replace_char_append
      replace_char_Nil)

lemma escape_concat: "escape s = concat (map escape_char s)"
  by (induction s) (simp_all add: escape_Nil escape_Cons)

lemma unescape_after_escape_char: "unescape (escape_char c @ t) = c # unescape t"
proof (cases t)
  case Nil
  then show ?thesis by (simp add: escape_char_def special_def)
next
  case (Cons d ds)
  then show ?thesis by (simp add: escape_char_def special_def)
qed

lemma unescaped_occurs_escape_char:
  "unescaped_occurs c (escape_char x @ t) =
     ((x = c \<and> c \<noteq> CHR ''?'' \<and> c \<noteq> squote \<and> c \<noteq> CHR '':'') \<or> unescaped_occurs c t)"
  by (auto simp: escape_char_def)

lemma unescaped_occurs_escape:
  "unescaped_occurs c (escape s @ t) =
     ((c \<in> set s \<and> c \<noteq> CHR ''?'' \<and> c \<noteq> squote \<and> c \<noteq> CHR '':'') \<or> unescaped_occurs c t)"
  by (induction s) (auto simp: escape_Nil escape_Cons unescaped_occurs_escape_char)

lemma escape_hides_terminator_and_colon:
  "\<not> unescaped_occurs squote (escape s)" "\<not> unescaped_occurs CHR '':'' (escape s)"
  using unescaped_occurs_escape [of squote s "[]"] unescaped_occurs_escape [of "CHR '':''" s "[]"]
  by simp_all

lemma escape_shows_plus: "unescaped_occurs CHR ''+'' (escape s) = (CHR ''+'' \<in> set s)"
  using unescaped_occurs_escape [of "CHR ''+''" s "[]"] by simp

lemma segment_ends_with_terminator:
  "last (segment tag es) = squote" "last (segment_r1 tag es) = squote"
  by (simp_all add: segment_def segment_r1_def)

lemma terminator_after_escape: "unescaped_occurs squote (escape s @ [squote])"
  using unescaped_occurs_escape [of squote s "[squote]"] by simp

section \<open>The count of the trailer can be read back\<close>

lemma of_char_digit_char: "d < 10 \<Longrightarrow> (of_char (digit_char d) :: nat) = 48 + d"
  by (simp add: digit_char_def)

lemma digit_char_ascii: "d < 10 \<Longrightarrow> ascii_digit (digit_char d)"
  by (simp add: ascii_digit_def of_char_digit_char)

lemma digit_val_digit_char: "d < 10 \<Longrightarrow> digit_val (digit_char d) = d"
  by (simp add: digit_val_def of_char_digit_char)

lemma str_nat_ascii: "list_all ascii_digit (str_nat n)"
proof (induction n rule: str_nat.induct)
  case (1 n)
  show ?case
  proof (cases "n < 10")
    case True
    then show ?thesis by (subst str_nat.simps) (simp add: digit_char_ascii)
  next
    case False
    then show ?thesis using 1 by (subst str_nat.simps) (simp add: digit_char_ascii)
  qed
qed

lemma str_nat_nonempty: "str_nat n \<noteq> []"
  by (subst str_nat.simps) simp

lemma fold_str_nat: "foldl (\<lambda>a c. 10 * a + digit_val c) 0 (str_nat n) = n"
proof (induction n rule: str_nat.induct)
  case (1 n)
  show ?case
  proof (cases "n < 10")
    case True
    then show ?thesis by (subst str_nat.simps) (simp add: digit_val_digit_char)
  next
    case False
    then show ?thesis using 1 by (subst str_nat.simps) (simp add: digit_val_digit_char)
  qed
qed

lemma parse_nat_str_nat: "parse_nat (str_nat n) = Some n"
  by (simp add: parse_nat_def str_nat_nonempty str_nat_ascii fold_str_nat)

lemma escape_char_ascii_digit: "ascii_digit c \<Longrightarrow> escape_char c = [c]"
  by (auto simp: escape_char_def ascii_digit_def)

lemma escape_ascii_digits: "list_all ascii_digit s \<Longrightarrow> escape s = s"
  by (induction s) (simp_all add: escape_Nil escape_Cons escape_char_ascii_digit)

lemma takeWhile_digits_stop:
  "list_all ascii_digit ds \<Longrightarrow> \<not> ascii_digit c \<Longrightarrow> takeWhile ascii_digit (ds @ c # rest) = ds"
  by (induction ds) simp_all

lemma trailer_form:
  "segment ''UNT'' [PyStr (str_nat n), PyStr ref] =
     ''UNT+'' @ str_nat n @ (if ref = [] then [] else CHR ''+'' # escape ref) @ [squote]"
  by (simp add: segment_def kept_def str_nat_nonempty escape_ascii_digits str_nat_ascii)

lemma trailer_count_trailer:
  "trailer_count (segment ''UNT'' [PyStr (str_nat n), PyStr ref]) = Some n"
proof -
  have "takeWhile ascii_digit (str_nat n @ (if ref = [] then [] else CHR ''+'' # escape ref) @ [squote])
        = str_nat n"
    by (cases "ref = []") (simp_all add: takeWhile_digits_stop str_nat_ascii ascii_digit_def)
  then show ?thesis
    by (simp add: trailer_count_def trailer_form parse_nat_str_nat)
qed

section \<open>When \<open>str\<close> of an integer returns\<close>

lemma str_int_cases:
  "str_int i = Inr (dec_int i) \<or> (\<exists>m. str_int i = Inl (ValueError m))"
  by (simp add: str_int_def)

lemma length_str_nat_le: "0 < k \<Longrightarrow> (length (str_nat n) \<le> k) = (n < 10 ^ k)"
proof (induction n arbitrary: k rule: str_nat.induct)
  case (1 n)
  show ?case
  proof (cases "n < 10")
    case True
    have "(10::nat) ^ 1 \<le> 10 ^ k"
      using "1.prems" by (intro power_increasing) simp_all
    with True have "n < 10 ^ k" by simp
    with True "1.prems" show ?thesis
      by (subst str_nat.simps) simp
  next
    case False
    have len: "length (str_nat n) = Suc (length (str_nat (n div 10)))"
      using False by (subst str_nat.simps) simp
    show ?thesis
    proof (cases k)
      case 0
      with "1.prems" show ?thesis by simp
    next
      case (Suc j)
      show ?thesis
      proof (cases "j = 0")
        case True
        with Suc False len show ?thesis
          using str_nat_nonempty [of "n div 10"] by (cases "str_nat (n div 10)") simp_all
      next
        case j: False
        then have "(length (str_nat (n div 10)) \<le> j) = (n div 10 < 10 ^ j)"
          using "1.IH" [OF False, of j] by simp
        moreover have "(n div 10 < 10 ^ j) = (n < 10 ^ j * 10)"
          by (rule div_less_iff_less_mult) simp
        ultimately show ?thesis
          using Suc len by (simp add: mult.commute)
      qed
    qed
  qed
qed

lemma str_int_returns_iff:
  "(str_int i = Inr (dec_int i)) = (abs i < 10 ^ int_max_str_digits)"
proof -
  have pos: "0 < int_max_str_digits"
    by (simp add: int_max_str_digits_def)
  have "(length (str_nat (nat (abs i))) \<le> int_max_str_digits) =
        (nat (abs i) < 10 ^ int_max_str_digits)"
    using pos by (rule length_str_nat_le)
  also have "\<dots> = (abs i < 10 ^ int_max_str_digits)"
    by (simp add: nat_less_iff)
  finally have "(\<not> int_max_str_digits < length (str_nat (nat (abs i)))) =
                (abs i < 10 ^ int_max_str_digits)"
    by (simp add: not_less)
  then show ?thesis
    by (auto simp: str_int_def)
qed

lemma str_int_raises_iff:
  "(\<exists>m. str_int i = Inl (ValueError m)) = (10 ^ int_max_str_digits \<le> abs i)"
  using str_int_returns_iff [of i] str_int_cases [of i] by auto

section \<open>What a successful \<open>generate\<close> builds\<close>

lemma validate_ean_ok: "ean_ok s \<Longrightarrow> validate_ean s = Inr s"
  by (simp add: validate_ean_def ean_ok_def)

lemma validate_ean_bad: "\<not> ean_ok s \<Longrightarrow> \<exists>m. validate_ean s = Inl (ValueError m)"
  by (simp add: validate_ean_def ean_ok_def)

lemma add_party_ok:
  "ean_ok s \<Longrightarrow>
   add_party q s g = (Inr (), emit (segment ''NAD'' [PyStr q, PyStr (s @ ''::9'')]) g)"
  by (simp add: add_party_def validate_ean_ok)

lemma emit_message: "message (emit s g) = message g @ [s]"
  by (simp add: emit_def)

lemma emit_fields:
  "message_ref (emit s g) = message_ref g" "carrier (emit s g) = carrier g"
  "delivery_location (emit s g) = delivery_location g" "buyer_ean (emit s g) = buyer_ean g"
  "supplier_ean (emit s g) = supplier_ean g" "reference_number (emit s g) = reference_number g"
  "document_number (emit s g) = document_number g" "output_dir (emit s g) = output_dir g"
  by (simp_all add: emit_def)

lemma emit_as_update: "emit s g = g\<lparr>message := message g @ [s]\<rparr>"
  by (simp add: emit_def)

lemma str_qty_cases:
  "str_qty q = Inr (qty_text q) \<or> (\<exists>m. str_qty q = Inl (ValueError m))"
  using str_int_cases by (cases q) simp_all

lemma valid_item_conversions:
  assumes "valid_item it"
  shows "ean_ok (ean it)" and "str_qty (qty it) = Inr (qty_text (qty it))"
    and "isdigit (qty_text (qty it))" and "str_int (cartons_of it) = Inr (dec_int (cartons_of it))"
proof -
  from assms show "ean_ok (ean it)"
    by (simp add: valid_item_def)
  from assms str_qty_cases [of "qty it"] show q: "str_qty (qty it) = Inr (qty_text (qty it))"
    by (auto simp: valid_item_def)
  from assms q show "isdigit (qty_text (qty it))"
    by (simp add: valid_item_def)
  from assms str_int_cases [of "cartons_of it"]
  show "str_int (cartons_of it) = Inr (dec_int (cartons_of it))"
    by (auto simp: valid_item_def)
qed

lemma add_line_item_ok:
  "valid_item it \<Longrightarrow>
   add_line_item (line_no it) (ean it) (qty it) (cartons_of it) (weight_of it) g
     = (Inr (), g\<lparr>message := message g @ item_segments it\<rparr>)"
  by (simp add: add_line_item_def valid_item_conversions validate_ean_ok item_segments_def
      emit_def Let_def)

lemma add_line_items_ok:
  "list_all valid_item items \<Longrightarrow>
   add_line_items items g = (Inr (), g\<lparr>message := message g @ concat (map item_segments items)\<rparr>)"
proof (induction items arbitrary: g)
  case Nil
  then show ?case by simp
next
  case (Cons it items)
  then show ?case by (simp add: add_line_item_ok)
qed

lemma generate_ok:
  assumes "line_items \<noteq> []" "list_all valid_item line_items"
    "ean_ok (buyer_ean g)" "ean_ok (supplier_ean g)"
  shows "generate e line_items as_list g =
     (let ref = generate_message_reference e;
          body = head_segments ref (dtm_clock e) g @ concat (map item_segments line_items);
          msg = body @ [segment ''UNT'' [PyStr (str_nat (length body + 1)), PyStr ref]]
      in (Inr (if as_list then Segments msg else Text (join [newline] msg)),
          g\<lparr>message := msg, message_ref := ref\<rparr>))"
  using assms
  by (simp add: generate_def add_una_segment_def add_header_def add_default_parties_def
      add_party_ok emit_fields add_transport_details_def add_line_items_ok add_trailer_def
      emit_as_update head_segments_def Let_def)

lemma tag_of_segment: "length tag = 3 \<Longrightarrow> tag_of (segment tag es) = tag"
  by (simp add: tag_of_def segment_def)

lemma length_head_segments: "length (head_segments ref now g) = 9"
  by (simp add: head_segments_def)








lemma str_int_1: "str_int 1 = Inr ''1''"
  by code_simp

lemma dec_int_1: "dec_int 1 = ''1''"
  by code_simp

lemma example_valid:
  "[example_item] \<noteq> []" "list_all valid_item [example_item]"
  "ean_ok (buyer_ean example_generator)" "ean_ok (supplier_ean example_generator)"
  by (simp_all add: valid_item_def example_item_def example_generator_def ean_ok_def
      isdigit_def isdigit_char_def cartons_of_def str_int_1)

lemma init_valid:
  "init mk c d b s r od dn v = Inr g \<Longrightarrow>
   ean_ok (buyer_ean g) \<and> ean_ok (supplier_ean g) \<and> message g = [] \<and> message_ref g = [] \<and>
   mk od"
  by (auto simp: init_def validate_ean_def ean_ok_def split: if_splits)

lemma init_without_directory:
  "ean_ok b \<Longrightarrow> ean_ok s \<Longrightarrow> \<not> mk od \<Longrightarrow> init mk c d b s r od dn v = Inl OSError"
  by (simp add: init_def validate_ean_ok)

lemma init_example:
  "mk ''output'' \<Longrightarrow>
   init mk ''CarrierX'' ''DEHAM'' ''5412345000176'' ''4012345500004'' ''123456789'' ''output''
        ''RECADV001'' False = Inr example_generator"
  using example_valid(3,4)
  by (simp add: init_def validate_ean_ok example_generator_def)



section \<open>Element positions of a rendered segment\<close>

lemma push_append: "push (a @ b) ps = push a (push b ps)"
  by (cases ps) (simp_all add: push_def)

lemma push_Nil: "push [] (p # ps) = p # ps"
  by (simp add: push_def)

lemma split_plus_nonempty: "split_plus s \<noteq> []"
  by (induction s rule: split_plus.induct) (auto simp: push_def split: list.splits)

lemma split_plus_escape_char:
  "c \<noteq> CHR ''+'' \<Longrightarrow> split_plus (escape_char c @ t) = push (escape_char c) (split_plus t)"
  by (simp add: escape_char_def)

lemma split_plus_escape:
  "CHR ''+'' \<notin> set x \<Longrightarrow> split_plus (escape x @ t) = push (escape x) (split_plus t)"
proof (induction x)
  case Nil
  obtain p ps where "split_plus t = p # ps"
    using split_plus_nonempty [of t] by (cases "split_plus t") auto
  then show ?case by (simp add: escape_Nil push_Nil)
next
  case (Cons c x)
  then have c: "c \<noteq> CHR ''+''" and ih: "split_plus (escape x @ t) = push (escape x) (split_plus t)"
    by auto
  have "split_plus (escape (c # x) @ t) = split_plus (escape_char c @ (escape x @ t))"
    by (simp add: escape_Cons)
  also have "\<dots> = push (escape_char c) (split_plus (escape x @ t))"
    using c by (rule split_plus_escape_char)
  also have "\<dots> = push (escape (c # x)) (split_plus t)"
    by (simp add: ih escape_Cons push_append)
  finally show ?case .
qed

lemma split_plus_join:
  "xs \<noteq> [] \<Longrightarrow> list_all (\<lambda>x. CHR ''+'' \<notin> set x) xs \<Longrightarrow>
   split_plus (join ''+'' (map escape xs)) = map escape xs"
proof (induction xs rule: induct_list012)
  case 1
  then show ?case by simp
next
  case (2 x)
  then show ?case
    using split_plus_escape [of x "[]"] by (simp add: push_def)
next
  case (3 x y ys)
  then show ?case
    using split_plus_escape [of x "CHR ''+'' # join ''+'' (map escape (y # ys))"]
    by (simp add: push_def)
qed

lemma elements_of_rendered:
  "elements_of tag (tag @ ''+'' @ body @ [squote]) = split_plus body"
  by (simp add: elements_of_def)

lemma filter_kept_trailing:
  "list_all kept xs \<Longrightarrow> list_all (\<lambda>e. \<not> kept e) ys \<Longrightarrow> filter kept (xs @ ys) = xs"
  by (simp add: list_all_iff)

lemma str_nat_14: "str_nat 14 = ''14''"
  by code_simp

section \<open>What the validation accepts and rejects\<close>

lemma ascii_digit_isdigit_char: "ascii_digit c \<Longrightarrow> isdigit_char c"
  by (simp add: ascii_digit_def isdigit_char_def Let_def)

lemma ascii_ean_ok: "ascii_ean s \<Longrightarrow> ean_ok s"
  by (auto simp: ascii_ean_def ean_ok_def isdigit_def list_all_iff ascii_digit_isdigit_char)

lemma add_party_invalid_unchanged:
  "\<not> ean_ok s \<Longrightarrow> \<exists>m. add_party q s g = (Inl (ValueError m), g)"
  by (simp add: add_party_def validate_ean_def ean_ok_def)

lemma add_line_item_invalid_unchanged:
  "\<not> ean_ok s \<or> (case str_qty q of Inl e \<Rightarrow> True | Inr t \<Rightarrow> \<not> isdigit t) \<Longrightarrow>
   \<exists>m. add_line_item n s q c w g = (Inl (ValueError m), g)"
  using str_qty_cases [of q]
  by (auto simp: add_line_item_def validate_ean_def ean_ok_def)

lemma add_line_item_invalid:
  assumes "\<not> valid_item it"
  shows "\<exists>m g'. add_line_item (line_no it) (ean it) (qty it) (cartons_of it) (weight_of it) g
                  = (Inl (ValueError m), g')"
proof (cases "ean_ok (ean it) \<and> (case str_qty (qty it) of Inl e \<Rightarrow> False | Inr t \<Rightarrow> isdigit t)")
  case False
  then have "\<not> ean_ok (ean it) \<or> (case str_qty (qty it) of Inl e \<Rightarrow> True | Inr t \<Rightarrow> \<not> isdigit t)"
    by (auto split: sum.splits)
  from add_line_item_invalid_unchanged [OF this] show ?thesis by blast
next
  case True
  with assms str_int_cases [of "cartons_of it"]
  obtain m where "str_int (cartons_of it) = Inl (ValueError m)"
    by (auto simp: valid_item_def)
  with True show ?thesis
    by (auto simp: add_line_item_def validate_ean_ok Let_def split: sum.splits)
qed

lemma add_line_items_invalid:
  "\<not> list_all valid_item items \<Longrightarrow> \<exists>m g'. add_line_items items g = (Inl (ValueError m), g')"
proof (induction items arbitrary: g)
  case Nil
  then show ?case by simp
next
  case (Cons it items)
  show ?case
  proof (cases "valid_item it")
    case True
    with Cons.prems have "\<not> list_all valid_item items" by simp
    from Cons.IH [OF this] True show ?thesis
      by (simp add: add_line_item_ok)
  next
    case False
    from add_line_item_invalid [OF this, of g] show ?thesis
      by auto
  qed
qed

lemma generate_before_items:
  assumes "line_items \<noteq> []" and "ean_ok (buyer_ean g)" and "ean_ok (supplier_ean g)"
  shows "generate e line_items as_list g =
     (case add_line_items line_items
             (g\<lparr>message_ref := generate_message_reference e,
                message := head_segments (generate_message_reference e) (dtm_clock e) g\<rparr>) of
        (Inl err, g7) \<Rightarrow> (Inl err, g7)
      | (Inr u, g7) \<Rightarrow>
          (Inr (if as_list then Segments (message (add_trailer g7))
                else Text (join [newline] (message (add_trailer g7)))),
           add_trailer g7))"
  using assms
  by (simp add: generate_def add_una_segment_def add_header_def add_default_parties_def
      add_party_ok emit_fields add_transport_details_def emit_as_update head_segments_def Let_def
      split: prod.splits sum.splits)

lemma generate_raises_iff:
  assumes "ean_ok (buyer_ean g)" and "ean_ok (supplier_ean g)"
  shows "(\<exists>m g'. generate e line_items as_list g = (Inl (ValueError m), g')) =
         (line_items = [] \<or> \<not> list_all valid_item line_items)"
proof (cases "line_items = []")
  case True
  then show ?thesis by (simp add: generate_def)
next
  case False
  show ?thesis
  proof (cases "list_all valid_item line_items")
    case True
    with False assms show ?thesis by (simp add: generate_ok Let_def)
  next
    case bad: False
    from add_line_items_invalid [OF bad] obtain m g' where
      "add_line_items line_items
         (g\<lparr>message_ref := generate_message_reference e,
            message := head_segments (generate_message_reference e) (dtm_clock e) g\<rparr>)
         = (Inl (ValueError m), g')"
      by blast
    then have "generate e line_items as_list g = (Inl (ValueError m), g')"
      by (simp add: generate_before_items [OF False assms])
    with bad show ?thesis by blast
  qed
qed

lemma escape_plain:
  "CHR ''?'' \<notin> set s \<Longrightarrow> squote \<notin> set s \<Longrightarrow> CHR '':'' \<notin> set s \<Longrightarrow> escape s = s"
  by (induction s) (auto simp: escape_Nil escape_Cons escape_char_def)

lemma superscript_ean_ok: "ean_ok superscript_ean"
  by (simp add: ean_ok_def superscript_ean_def isdigit_def isdigit_char_def list_all_iff)

lemma superscript_item_valid: "list_all valid_item [example_item\<lparr>ean := superscript_ean\<rparr>]"
  by (simp add: valid_item_def superscript_ean_ok)
     (simp add: example_item_def isdigit_def isdigit_char_def cartons_of_def str_int_1)

lemma long_quantity_raises:
  "ean_ok s \<Longrightarrow> 10 ^ int_max_str_digits \<le> abs i \<Longrightarrow>
   \<exists>m. add_line_item n s (QInt i) c w g = (Inl (ValueError m), g)"
  using str_int_raises_iff [of i]
  by (auto simp: add_line_item_def validate_ean_ok)

lemma long_cartons_raise_after_lin_and_qty:
  assumes "ean_ok s" and "isdigit q" and "10 ^ int_max_str_digits \<le> abs c"
  shows "\<exists>m. add_line_item n s (QStr q) c w g =
           (Inl (ValueError m),
            g\<lparr>message := message g @
                 [segment ''LIN'' [PyStr n, PyStr [], PyStr (''EN:'' @ s)],
                  segment ''QTY'' [PyStr (''113:'' @ q)]]\<rparr>)"
proof -
  from assms(3) str_int_raises_iff [of c] obtain m where "str_int c = Inl (ValueError m)"
    by auto
  with assms(1,2) show ?thesis
    by (simp add: add_line_item_def validate_ean_ok Let_def emit_def)
qed

section \<open>What the durable writer leaves behind\<close>

lemma write_via_temp_success:
  "fault x = None \<Longrightarrow> temp_name x \<noteq> filepath \<Longrightarrow>
   write_via_temp x content filepath fs =
     (Inr (), (fs(filepath \<mapsto> content))(temp_name x := None))"
  by (auto simp: write_via_temp_def try_body_def write_temp_def move_def cleanup_def)

lemma write_via_temp_create_fails:
  "fault x = Some CreateTemp \<Longrightarrow> write_via_temp x content filepath fs = (Inl OSError, fs)"
  by (simp add: write_via_temp_def try_body_def write_temp_def cleanup_def)

lemma write_via_temp_close_fails:
  "fault x = Some CloseTemp \<Longrightarrow> temp_name x \<noteq> [] \<Longrightarrow>
   write_via_temp x content filepath fs = (Inl OSError, fs(temp_name x := None))"
  by (simp add: write_via_temp_def try_body_def write_temp_def cleanup_def)

lemma write_via_temp_move_fails:
  "fault x = Some MoveTemp \<Longrightarrow> temp_name x \<noteq> [] \<Longrightarrow>
   write_via_temp x content filepath fs = (Inl OSError, fs(temp_name x := None))"
  by (simp add: write_via_temp_def try_body_def write_temp_def move_def cleanup_def)

lemma write_via_temp_write_fails:
  "fault x = Some WriteTemp \<Longrightarrow>
   write_via_temp x content filepath fs = (Inl OSError, fs(temp_name x \<mapsto> written x))"
  by (simp add: write_via_temp_def try_body_def write_temp_def cleanup_def)

lemma generate_and_save_success:
  assumes "line_items \<noteq> []" and "list_all valid_item line_items"
    and "ean_ok (buyer_ean g)" and "ean_ok (supplier_ean g)"
    and "fault x = None" and "f \<noteq> []" and "temp_name x \<noteq> path_join (output_dir g) f"
  shows "\<exists>content g'.
           generate e line_items False g = (Inr (Text content), g') \<and>
           generate_and_save e x line_items (Some f) g fs =
             (Inr (path_join (output_dir g) f), g',
              (fs(path_join (output_dir g) f \<mapsto> content))(temp_name x := None))"
  using assms
  by (simp add: generate_and_save_def generate_ok Let_def write_via_temp_success)

lemma generate_and_save_late_failure:
  assumes "line_items \<noteq> []" and "list_all valid_item line_items"
    and "ean_ok (buyer_ean g)" and "ean_ok (supplier_ean g)"
    and "fault x = Some CloseTemp \<or> fault x = Some MoveTemp"
    and "temp_name x \<noteq> []" and "fs (temp_name x) = None"
  shows "\<exists>g'. generate_and_save e x line_items filename g fs = (Inl OSError, g', fs)"
proof -
  have "fs(temp_name x := None) = fs"
    using assms(7) by auto
  with assms show ?thesis
    by (auto simp: generate_and_save_def generate_ok Let_def write_via_temp_close_fails
        write_via_temp_move_fails)
qed

section \<open>The claims\<close>

text \<open>
  C7. Escaping an element text with the encoder's replacement chain and then applying
  the reference inverse gives the original text back, for every string, whatever
  mixture of \<open>?\<close>, \<open>+\<close>, \<open>:\<close> and \<open>'\<close> it holds.
\<close>

theorem unescape_escape: "unescape (escape s) = s"
  by (induction s) (simp_all add: escape_Nil escape_Cons unescape_after_escape_char)

text \<open>
  C1. For every non-empty list of valid line items (items that \<open>add_line_item\<close>
  accepts: the EAN passes, \<open>str(qty)\<close> returns digits and \<open>str(cartons)\<close> returns), on a
  builder whose buyer and supplier EANs are valid, \<open>generate\<close> returns a message
  whose last segment is the UNT trailer, and the number carried in that trailer is the
  number of segments of the message, the trailer included.
\<close>

theorem trailer_count_is_segment_total:
  assumes "line_items \<noteq> []" and "list_all valid_item line_items"
    and "ean_ok (buyer_ean g)" and "ean_ok (supplier_ean g)"
  shows "\<exists>msg g'.
           generate e line_items as_list g =
             (Inr (if as_list then Segments msg else Text (join [newline] msg)), g') \<and>
           message g' = msg \<and> msg \<noteq> [] \<and> tag_of (last msg) = ''UNT'' \<and>
           trailer_count (last msg) = Some (length msg)"
  using assms
  by (simp add: generate_ok Let_def trailer_count_trailer tag_of_segment)

theorem trailer_count_is_segment_total_witness:
  "[example_item] \<noteq> [] \<and> list_all valid_item [example_item] \<and>
   ean_ok (buyer_ean example_generator) \<and> ean_ok (supplier_ean example_generator) \<and>
   (\<exists>msg g'.
      generate example_env [example_item] True example_generator = (Inr (Segments msg), g') \<and>
      message g' = msg \<and> msg \<noteq> [] \<and> tag_of (last msg) = ''UNT'' \<and>
      trailer_count (last msg) = Some (length msg))"
  using trailer_count_is_segment_total [OF example_valid, of example_env True] example_valid
  by simp








text \<open>
  C6 (as amended). For every tag: the release1 encoder, given any non-empty list of
  elements none of which holds a \<open>+\<close>, joins the escaped elements with \<open>+\<close> in call
  order and keeps one position for every element, the empty ones included, interior and
  trailing alike. The release2 encoder, given a non-empty list of non-empty elements,
  none holding a \<open>+\<close>, followed by any number of empty elements (\<open>""\<close> or
  \<open>None\<close>), joins the escaped non-empty elements with \<open>+\<close> in call order, one position
  for each of them, and leaves the trailing empty elements out.
\<close>

theorem encoder_positions:
  assumes "es \<noteq> []" and "list_all (\<lambda>e. CHR ''+'' \<notin> set (py_str e)) es"
    and "xs \<noteq> []" and "list_all kept xs" and "list_all (\<lambda>e. \<not> kept e) ys"
    and "list_all (\<lambda>e. CHR ''+'' \<notin> set (py_str e)) xs"
  shows "segment_r1 tag es =
           tag @ ''+'' @ join ''+'' (map (\<lambda>e. escape (py_str e)) es) @ [squote] \<and>
         elements_of tag (segment_r1 tag es) = map (\<lambda>e. escape (py_str e)) es \<and>
         segment tag (xs @ ys) =
           tag @ ''+'' @ join ''+'' (map (\<lambda>e. escape (py_str e)) xs) @ [squote] \<and>
         elements_of tag (segment tag (xs @ ys)) = map (\<lambda>e. escape (py_str e)) xs"
proof -
  have f: "filter kept (xs @ ys) = xs"
    using assms(4,5) by (rule filter_kept_trailing)
  have p: "list_all (\<lambda>x. CHR ''+'' \<notin> set x) (map py_str xs)"
    using assms(6) by (simp add: list_all_iff)
  have q: "list_all (\<lambda>x. CHR ''+'' \<notin> set x) (map py_str es)"
    using assms(2) by (simp add: list_all_iff)
  have m: "\<And>zs. map (\<lambda>e. escape (py_str e)) zs = map escape (map py_str zs)"
    by simp
  have 1: "segment_r1 tag es =
             tag @ ''+'' @ join ''+'' (map (\<lambda>e. escape (py_str e)) es) @ [squote]"
    by (simp add: segment_r1_def)
  have 2: "elements_of tag (segment_r1 tag es) = map (\<lambda>e. escape (py_str e)) es"
    unfolding 1 elements_of_rendered m using assms(1) q by (intro split_plus_join) simp_all
  have 3: "segment tag (xs @ ys) =
             tag @ ''+'' @ join ''+'' (map (\<lambda>e. escape (py_str e)) xs) @ [squote]"
    unfolding segment_def f by simp
  have 4: "elements_of tag (segment tag (xs @ ys)) = map (\<lambda>e. escape (py_str e)) xs"
    unfolding 3 elements_of_rendered m using assms(3) p by (intro split_plus_join) simp_all
  from 1 2 3 4 show ?thesis by blast
qed

theorem encoder_positions_witness:
  "[PyStr ''1'', PyStr [], PyStr ''EN:4000862141404'', PyStr []] \<noteq> [] \<and>
   list_all (\<lambda>e. CHR ''+'' \<notin> set (py_str e))
     [PyStr ''1'', PyStr [], PyStr ''EN:4000862141404'', PyStr []] \<and>
   [PyStr ''AAE'', PyStr ''G'', PyStr ''KGM:6.5''] \<noteq> [] \<and>
   list_all kept [PyStr ''AAE'', PyStr ''G'', PyStr ''KGM:6.5''] \<and>
   list_all (\<lambda>e. \<not> kept e) [PyStr [], PyNone] \<and>
   list_all (\<lambda>e. CHR ''+'' \<notin> set (py_str e)) [PyStr ''AAE'', PyStr ''G'', PyStr ''KGM:6.5''] \<and>
   segment_r1 ''LIN'' [PyStr ''1'', PyStr [], PyStr ''EN:4000862141404'', PyStr []] =
     ''LIN+1++EN?:4000862141404+'' @ [squote] \<and>
   elements_of ''LIN''
       (segment_r1 ''LIN'' [PyStr ''1'', PyStr [], PyStr ''EN:4000862141404'', PyStr []])
     = [''1'', [], ''EN?:4000862141404'', []] \<and>
   segment ''MEA'' ([PyStr ''AAE'', PyStr ''G'', PyStr ''KGM:6.5''] @ [PyStr [], PyNone]) =
     ''MEA+AAE+G+KGM?:6.5'' @ [squote] \<and>
   elements_of ''MEA''
       (segment ''MEA'' ([PyStr ''AAE'', PyStr ''G'', PyStr ''KGM:6.5''] @ [PyStr [], PyNone]))
     = [''AAE'', ''G'', ''KGM?:6.5'']"
proof -
  let ?es = "[PyStr ''1'', PyStr [], PyStr ''EN:4000862141404'', PyStr []]"
  let ?xs = "[PyStr ''AAE'', PyStr ''G'', PyStr ''KGM:6.5'']"
  let ?ys = "[PyStr [], PyNone]"
  have a: "?es \<noteq> []" by simp
  have b: "list_all (\<lambda>e. CHR ''+'' \<notin> set (py_str e)) ?es"
    by simp
  have c: "?xs \<noteq> []" by simp
  have d: "list_all kept ?xs"
    by (simp add: kept_def)
  have e: "list_all (\<lambda>e. \<not> kept e) ?ys"
    by (simp add: kept_def)
  have f: "list_all (\<lambda>e. CHR ''+'' \<notin> set (py_str e)) ?xs"
    by simp
  have e1: "map (\<lambda>e. escape (py_str e)) ?es = [''1'', [], ''EN?:4000862141404'', []]"
    by (simp add: escape_Cons escape_Nil escape_char_def)
  have e2: "map (\<lambda>e. escape (py_str e)) ?xs = [''AAE'', ''G'', ''KGM?:6.5'']"
    by (simp add: escape_Cons escape_Nil escape_char_def)
  have e3: "''LIN'' @ ''+'' @ join ''+'' [''1'', [], ''EN?:4000862141404'', []] @ [squote] =
              ''LIN+1++EN?:4000862141404+'' @ [squote]"
    by simp
  have e4: "''MEA'' @ ''+'' @ join ''+'' [''AAE'', ''G'', ''KGM?:6.5''] @ [squote] =
              ''MEA+AAE+G+KGM?:6.5'' @ [squote]"
    by simp
  note r1 = encoder_positions [OF a b c d e f, of "''LIN''", unfolded e1 e2 e3]
  note r2 = encoder_positions [OF a b c d e f, of "''MEA''", unfolded e1 e2 e4]
  from a b c d e f r1 r2 show ?thesis by blast
qed

text \<open>
  C6 as stated fails on release2: a trailing empty element is dropped, so two elements
  render one position.
\<close>

theorem segment_drops_trailing_empty_element:
  "segment ''PAC'' [PyStr ''1'', PyStr []] = ''PAC+1'' @ [squote] \<and>
   elements_of ''PAC'' (segment ''PAC'' [PyStr ''1'', PyStr []]) = [''1''] \<and>
   length [PyStr ''1'', PyStr []] = 2"
  by (simp add: segment_def kept_def elements_of_def escape_Cons escape_Nil escape_char_def push_def)

text \<open>
  C2 fails on the code: the encoder (release1 and release2 alike) does not escape the
  element separator. The element \<open>A+B\<close> is rendered as it is, and the segment reads
  back as three elements where two were passed.
\<close>

theorem segment_leaves_plus_unescaped:
  "segment ''LOC'' [PyStr ''9'', PyStr ''A+B''] = ''LOC+9+A+B'' @ [squote] \<and>
   segment_r1 ''LOC'' [PyStr ''9'', PyStr ''A+B''] = ''LOC+9+A+B'' @ [squote] \<and>
   elements_of ''LOC'' (segment ''LOC'' [PyStr ''9'', PyStr ''A+B'']) = [''9'', ''A'', ''B'']"
  by (simp add: segment_def segment_r1_def kept_def elements_of_def escape_Cons escape_Nil
      escape_char_def push_def)

text \<open>
  C3 fails on the code: for the input of the specification's example, \<open>generate\<close>
  (release2) escapes the component separators of the composite elements and drops the
  empty placeholder of LIN, so the message holds \<open>LIN+1+EN?:4000862141404'\<close>,
  \<open>QTY+113?:12'\<close> and NAD segments ending in \<open>?:?:9'\<close>.
\<close>

theorem example_message_escapes_composites:
  "fst (generate example_env [example_item] True example_generator) =
     Inr (Segments
        [''UNA:+.? '' @ [squote],
         ''UNH+20250101120001234567+RECADV?:D?:96A?:UN?:EAN008'' @ [squote],
         ''BGM+351+RECADV001+9'' @ [squote],
         ''DTM+137?:202501011200?:203'' @ [squote],
         ''RFF+DQ?:123456789'' @ [squote],
         ''NAD+BY+5412345000176?:?:9'' @ [squote],
         ''NAD+SU+4012345500004?:?:9'' @ [squote],
         ''TDT+20+31+CarrierX'' @ [squote],
         ''LOC+9+DEHAM'' @ [squote],
         ''LIN+1+EN?:4000862141404'' @ [squote],
         ''QTY+113?:12'' @ [squote],
         ''PAC+1+CT'' @ [squote],
         ''MEA+AAE+G+KGM?:6.5'' @ [squote],
         ''UNT+14+20250101120001234567'' @ [squote]])"
proof -
  have r: "generate_message_reference example_env = ''20250101120001234567''"
    by (simp add: generate_message_reference_def example_env_def)
  have h: "head_segments ''20250101120001234567'' (dtm_clock example_env) example_generator =
        [''UNA:+.? '' @ [squote],
         ''UNH+20250101120001234567+RECADV?:D?:96A?:UN?:EAN008'' @ [squote],
         ''BGM+351+RECADV001+9'' @ [squote],
         ''DTM+137?:202501011200?:203'' @ [squote],
         ''RFF+DQ?:123456789'' @ [squote],
         ''NAD+BY+5412345000176?:?:9'' @ [squote],
         ''NAD+SU+4012345500004?:?:9'' @ [squote],
         ''TDT+20+31+CarrierX'' @ [squote],
         ''LOC+9+DEHAM'' @ [squote]]"
    by (simp add: head_segments_def segment_def kept_def escape_Cons escape_Nil escape_char_def
        example_env_def example_generator_def)
  have i: "item_segments example_item =
        [''LIN+1+EN?:4000862141404'' @ [squote],
         ''QTY+113?:12'' @ [squote],
         ''PAC+1+CT'' @ [squote],
         ''MEA+AAE+G+KGM?:6.5'' @ [squote]]"
    by (simp add: item_segments_def segment_def kept_def escape_Cons escape_Nil escape_char_def
        example_item_def cartons_of_def weight_of_def dec_int_1)
  have t: "segment ''UNT'' [PyStr (str_nat 14), PyStr ''20250101120001234567''] =
        ''UNT+14+20250101120001234567'' @ [squote]"
    by (simp add: segment_def kept_def escape_Cons escape_Nil escape_char_def str_nat_14)
  have l: "length (item_segments example_item) = 4"
    by (simp add: item_segments_def)
  have g: "fst (generate example_env [example_item] True example_generator) =
        Inr (Segments
          (head_segments ''20250101120001234567'' (dtm_clock example_env) example_generator
           @ item_segments example_item
           @ [segment ''UNT'' [PyStr (str_nat 14), PyStr ''20250101120001234567'']]))"
    by (simp add: generate_ok [OF example_valid] Let_def r length_head_segments l)
  show ?thesis
    unfolding g h i t by simp
qed

text \<open>
  C5 fails on the code: \<open>_validate_ean\<close> tests \<open>str.isdigit\<close>, which also holds for
  digits outside ASCII. An EAN of thirteen superscript twos is accepted, \<open>generate\<close>
  raises nothing and the EAN is written into the LIN segment.
\<close>

theorem generate_accepts_superscript_digits:
  "length superscript_ean = 13 \<and> \<not> list_all ascii_digit superscript_ean \<and>
   validate_ean superscript_ean = Inr superscript_ean \<and>
   fst (generate example_env [example_item\<lparr>ean := superscript_ean\<rparr>] True example_generator) =
     Inr (Segments
            (message (snd (generate example_env [example_item\<lparr>ean := superscript_ean\<rparr>] True
                             example_generator)))) \<and>
   message (snd (generate example_env [example_item\<lparr>ean := superscript_ean\<rparr>] True
                   example_generator)) ! 9 =
     ''LIN+1+EN?:'' @ superscript_ean @ [squote]"
proof -
  have a: "length superscript_ean = 13" "\<not> list_all ascii_digit superscript_ean"
    by (simp_all add: superscript_ean_def ascii_digit_def list_all_iff)
  have b: "validate_ean superscript_ean = Inr superscript_ean"
    by (rule validate_ean_ok [OF superscript_ean_ok])
  note g = generate_ok [OF _ superscript_item_valid example_valid(3,4), of example_env True,
      simplified]
  have e: "escape superscript_ean = superscript_ean"
    by (rule escape_plain) (simp_all add: superscript_ean_def)
  have l: "segment ''LIN'' [PyStr ''1'', PyStr [], PyStr (''EN:'' @ superscript_ean)] =
             ''LIN+1+EN?:'' @ superscript_ean @ [squote]"
    using e by (simp add: segment_def kept_def escape_Cons escape_Nil escape_char_def)
  have c: "fst (generate example_env [example_item\<lparr>ean := superscript_ean\<rparr>] True example_generator) =
     Inr (Segments
            (message (snd (generate example_env [example_item\<lparr>ean := superscript_ean\<rparr>] True
                             example_generator))))"
    by (simp add: g Let_def)
  have d: "message (snd (generate example_env [example_item\<lparr>ean := superscript_ean\<rparr>] True
                   example_generator)) ! 9 =
     ''LIN+1+EN?:'' @ superscript_ean @ [squote]"
    using l
    by (simp add: g Let_def nth_append length_head_segments item_segments_def)
       (simp add: example_item_def)
  from a b c d show ?thesis by blast
qed

text \<open>
  C4 fails on the code: when \<open>tmp.write\<close> raises, the variable \<open>tmp_file\<close> has not
  been assigned yet, so the \<open>finally\<close> clause removes nothing. The call raises, the
  target does not exist, and the temporary file stays in the output directory.
\<close>

theorem write_failure_leaves_temp_file:
  "fst (generate_and_save example_env example_io_write_fails [example_item] None
          example_generator example_files) = Inl OSError \<and>
   snd (snd (generate_and_save example_env example_io_write_fails [example_item] None
          example_generator example_files)) ''output/tmpk3v9x2ab'' = Some [] \<and>
   snd (snd (generate_and_save example_env example_io_write_fails [example_item] None
          example_generator example_files)) ''output/RECADV_20250101120001234567.edi'' = None"
proof -
  have f: "fault example_io_write_fails = Some WriteTemp"
    by (simp add: example_io_write_fails_def)
  have g: "generate_and_save example_env example_io_write_fails [example_item] None
             example_generator example_files =
           (Inl OSError,
            snd (generate example_env [example_item] False example_generator),
            example_files(''output/tmpk3v9x2ab'' \<mapsto> []))"
    by (simp add: generate_and_save_def generate_ok [OF example_valid] Let_def
        write_via_temp_write_fails [OF f])
       (simp add: example_io_write_fails_def)
  show ?thesis
    unfolding g by (simp add: example_files_def)
qed

end
